theory Spec2Isabelle
  imports
    Complex_Main
    "HOL-Library.Product_Lexorder"
    "HOL-Library.List_Lexorder"
    "HOL-Library.Char_ord"
begin

section \<open>Data model\<close>

text \<open>
  The data preparation of \<^verbatim>\<open>app.py\<close> works on pandas data frames. A cell is
  dynamically typed: a missing value (pandas' NaN, NaT and None, which \<^verbatim>\<open>isna\<close> does not
  tell apart), a string, a number (pandas' floats and integers, taken here as exact rationals),
  or a timestamp (\<^verbatim>\<open>datetime64[ns]\<close>: nanoseconds since 1970-01-01 00:00).
\<close>

datatype cell = NA | Str string | Num rat | Ts int

text \<open>
  A data frame is its list of column labels and its rows; a row gives the cell under each label.
  Only the cells under the labels of \<open>columns\<close> belong to the table. Both an absent file
  (\<^verbatim>\<open>pd.DataFrame()\<close>) and a file with a header only have no rows.
\<close>

type_synonym row = "string \<Rightarrow> cell"

record dataframe =
  columns :: "string list"
  rows :: "row list"

text \<open>A row from its labelled cells; it is missing everywhere else.\<close>

definition mk_row :: "(string \<times> cell) list \<Rightarrow> row" where
  "mk_row kvs = (\<lambda>n. case map_of kvs n of Some v \<Rightarrow> v | None \<Rightarrow> NA)"

definition DataFrame :: dataframe where
  "DataFrame = \<lparr>columns = [], rows = []\<rparr>"

text \<open>\<^verbatim>\<open>df.empty\<close>: some axis has length zero.\<close>

definition df_empty :: "dataframe \<Rightarrow> bool" where
  "df_empty df \<longleftrightarrow> rows df = [] \<or> columns df = []"

text \<open>\<^verbatim>\<open>df[col]\<close> for a label that is present.\<close>

definition col :: "dataframe \<Rightarrow> string \<Rightarrow> cell list" where
  "col df c = map (\<lambda>r. r c) (rows df)"

text \<open>
  \<^verbatim>\<open>df[c] = series\<close> for a series that carries the frame's own index, or an empty one:
  pandas aligns on the index, so a row without a partner gets a missing value and the number of
  rows never changes. A new label is appended to the columns.
\<close>

definition set_col :: "dataframe \<Rightarrow> string \<Rightarrow> cell list \<Rightarrow> dataframe" where
  "set_col df c vs =
     \<lparr>columns = (if c \<in> set (columns df) then columns df else columns df @ [c]),
      rows = map (\<lambda>(i, r). r(c := (if i < length vs then vs ! i else NA))) (enumerate 0 (rows df))\<rparr>"

text \<open>\<^verbatim>\<open>df[c] = scalar\<close>: the scalar is broadcast to every row.\<close>

definition set_col_scalar :: "dataframe \<Rightarrow> string \<Rightarrow> cell \<Rightarrow> dataframe" where
  "set_col_scalar df c v =
     \<lparr>columns = (if c \<in> set (columns df) then columns df else columns df @ [c]),
      rows = map (\<lambda>r. r(c := v)) (rows df)\<rparr>"

text \<open>The exceptions that the preparation can raise.\<close>

datatype py_error = KeyError string | AttributeError

section \<open>What the library decides\<close>

text \<open>
  The text parsers of pandas and the order in which its default sort leaves equal keys are not
  part of \<^verbatim>\<open>app.py\<close>; every function below takes them as a parameter, and every theorem
  holds for all of them.
  \<^item> \<open>strptime fmt c\<close>: what \<^verbatim>\<open>pd.to_datetime(..., format=fmt, errors="coerce")\<close> makes of
    one element that is neither missing nor a timestamp already (\<open>None\<close>: it does not match).
  \<^item> \<open>guess_datetime cs c\<close>: the same for \<^verbatim>\<open>pd.to_datetime(..., errors="coerce")\<close> without a
    format, which may look at the whole column \<open>cs\<close> to infer one.
  \<^item> \<open>str_to_float s\<close>: what \<^verbatim>\<open>pd.to_numeric(..., errors="coerce")\<close> reads in a string.
  \<^item> \<open>tie_rank cs i\<close>: \<^verbatim>\<open>sort_values\<close> on one column uses \<^verbatim>\<open>kind="quicksort"\<close>, which is
    not stable; among the rows with equal keys of the column \<open>cs\<close>, the row at position \<open>i\<close>
    comes out by increasing \<open>tie_rank cs i\<close> (rows equal in this too keep their order).
\<close>

record pandas =
  strptime :: "string \<Rightarrow> cell \<Rightarrow> int option"
  guess_datetime :: "cell list \<Rightarrow> cell \<Rightarrow> int option"
  str_to_float :: "string \<Rightarrow> rat option"
  tie_rank :: "cell list \<Rightarrow> nat \<Rightarrow> nat"

text \<open>The file system as \<^verbatim>\<open>pd.read_csv\<close> sees it: a table, or an exception.\<close>

datatype read_error = FileNotFoundError | OtherException string

type_synonym files = "string \<Rightarrow> read_error + dataframe"

section \<open>Utilities\<close>

text \<open>
  \<^verbatim>\<open>safe_read_csv\<close>: both handlers return a fresh empty frame. (The \<^verbatim>\<open>st.cache_data\<close>
  decorator only memoises the result per path.)
\<close>

definition safe_read_csv :: "files \<Rightarrow> string \<Rightarrow> dataframe" where
  "safe_read_csv fs path =
     (case fs path of
        Inr df \<Rightarrow> df
      | Inl FileNotFoundError \<Rightarrow> DataFrame
      | Inl (OtherException msg) \<Rightarrow> DataFrame)"

text \<open>
  \<^verbatim>\<open>pd.to_datetime(series, format=fmt, errors="coerce")\<close>, element by element: a timestamp
  stays, a missing value stays missing, anything that does not match becomes missing.
\<close>

fun to_datetime_cell :: "(cell \<Rightarrow> int option) \<Rightarrow> cell \<Rightarrow> cell" where
  "to_datetime_cell p NA = NA"
| "to_datetime_cell p (Ts t) = Ts t"
| "to_datetime_cell p c = (case p c of Some t \<Rightarrow> Ts t | None \<Rightarrow> NA)"

definition to_datetime :: "pandas \<Rightarrow> string option \<Rightarrow> cell list \<Rightarrow> cell list" where
  "to_datetime L format series =
     (case format of
        Some fmt \<Rightarrow> map (to_datetime_cell (strptime L fmt)) series
      | None \<Rightarrow> map (to_datetime_cell (guess_datetime L series)) series)"

definition default_formats :: "string list" where
  "default_formats =
     [''%Y-%m-%d %H:%M:%S'',
      ''%Y-%m-%d %H:%M'',
      ''%d-%m-%Y %H:%M'',
      ''%d/%m/%Y %H:%M:%S'',
      ''%d/%m/%Y %H:%M'']"

text \<open>\<^verbatim>\<open>parsed.notna().any()\<close>\<close>

definition notna_any :: "cell list \<Rightarrow> bool" where
  "notna_any cs \<longleftrightarrow> (\<exists>c \<in> set cs. c \<noteq> NA)"

text \<open>The \<^verbatim>\<open>for fmt in formats\<close> loop of \<^verbatim>\<open>to_datetime_safe\<close> with the fallback after it.\<close>

fun try_formats :: "pandas \<Rightarrow> string list \<Rightarrow> cell list \<Rightarrow> cell list" where
  "try_formats L [] series = to_datetime L None series"
| "try_formats L (fmt # fmts) series =
     (let parsed = to_datetime L (Some fmt) series
      in if notna_any parsed then parsed else try_formats L fmts series)"

text \<open>
  \<^verbatim>\<open>to_datetime_safe(series, formats=None)\<close>; \<open>None\<close> is Python's \<^verbatim>\<open>None\<close> for either
  argument.
\<close>

definition formats_or_default :: "string list option \<Rightarrow> string list" where
  "formats_or_default formats = (case formats of None \<Rightarrow> default_formats | Some fs \<Rightarrow> fs)"

definition to_datetime_safe :: "pandas \<Rightarrow> cell list option \<Rightarrow> string list option \<Rightarrow> cell list" where
  "to_datetime_safe L series formats =
     (case series of
        None \<Rightarrow> []
      | Some s \<Rightarrow> if s = [] then [] else try_formats L (formats_or_default formats) s)"

text \<open>
  \<^verbatim>\<open>ensure_col(df, col, default)\<close> changes the frame in place and returns it; the model
  returns the new frame.
\<close>

definition ensure_col :: "dataframe \<Rightarrow> string \<Rightarrow> cell \<Rightarrow> dataframe" where
  "ensure_col df c dflt =
     (if c \<notin> set (columns df) then set_col_scalar df c dflt else df)"

section \<open>The pandas operations that the preparation uses\<close>

text \<open>
  Column types are not tracked: a key is compared with another by equality of cells (so missing
  keys match each other in \<^verbatim>\<open>merge\<close> and \<^verbatim>\<open>drop_duplicates\<close>, as in pandas), and the
  failures of pandas on columns of different types are outside the model. The one place where
  the type of a column decides the control flow of \<^verbatim>\<open>load_data\<close> is noted there.
\<close>

text \<open>\<^verbatim>\<open>pd.to_numeric(series, errors="coerce")\<close>\<close>

fun to_numeric_cell :: "(string \<Rightarrow> rat option) \<Rightarrow> cell \<Rightarrow> cell" where
  "to_numeric_cell p NA = NA"
| "to_numeric_cell p (Num q) = Num q"
| "to_numeric_cell p (Str s) = (case p s of Some q \<Rightarrow> Num q | None \<Rightarrow> NA)"
| "to_numeric_cell p (Ts t) = Num (of_int t)"

definition to_numeric :: "pandas \<Rightarrow> cell list \<Rightarrow> cell list" where
  "to_numeric L series = map (to_numeric_cell (str_to_float L)) series"

definition fillna :: "cell \<Rightarrow> cell list \<Rightarrow> cell list" where
  "fillna v series = map (\<lambda>c. if c = NA then v else c) series"

text \<open>
  The order of \<^verbatim>\<open>sort_values\<close> within a column: numbers by value, timestamps by time, strings
  by code points, missing values last (\<^verbatim>\<open>na_position="last"\<close>). A pandas column holds one
  kind of value beside the missing ones, so the order between the kinds is never used.
\<close>

fun cell_ord :: "cell \<Rightarrow> nat \<times> rat \<times> string" where
  "cell_ord (Num q) = (0, q, [])"
| "cell_ord (Ts t) = (1, of_int t, [])"
| "cell_ord (Str s) = (2, 0, s)"
| "cell_ord NA = (3, 0, [])"

text \<open>
  \<^verbatim>\<open>df.sort_values(c)\<close>: one column, default \<^verbatim>\<open>kind="quicksort"\<close>. Rows come out by
  increasing key; rows of equal keys in the order the library leaves them (\<open>tie_rank\<close>); the
  rows with a missing key keep their order.
\<close>

definition sort_values :: "pandas \<Rightarrow> string \<Rightarrow> dataframe \<Rightarrow> py_error + dataframe" where
  "sort_values L c df =
     (if c \<notin> set (columns df) then Inl (KeyError c)
      else Inr (df\<lparr>rows :=
        map snd (sort_key (\<lambda>(i, r). (cell_ord (r c), if r c = NA then 0 else tie_rank L (col df c) i))
                   (enumerate 0 (rows df)))\<rparr>))"

text \<open>
  \<^verbatim>\<open>df.sort_values([c1, c2])\<close>: with several columns pandas sorts lexicographically and
  stably (\<^verbatim>\<open>lexsort\<close>), so rows equal in both keys keep their input order.
\<close>

definition sort_values2 :: "string \<Rightarrow> string \<Rightarrow> dataframe \<Rightarrow> py_error + dataframe" where
  "sort_values2 c1 c2 df =
     (if c1 \<notin> set (columns df) then Inl (KeyError c1)
      else if c2 \<notin> set (columns df) then Inl (KeyError c2)
      else Inr (df\<lparr>rows := sort_key (\<lambda>r. (cell_ord (r c1), cell_ord (r c2))) (rows df)\<rparr>))"

text \<open>\<^verbatim>\<open>drop_duplicates(c)\<close> keeps, for each key, the first row that carries it.\<close>

fun first_of_each :: "('a \<Rightarrow> 'k) \<Rightarrow> 'a list \<Rightarrow> 'a list" where
  "first_of_each f [] = []"
| "first_of_each f (x # xs) = x # first_of_each f (filter (\<lambda>y. f y \<noteq> f x) xs)"

definition drop_duplicates :: "string \<Rightarrow> dataframe \<Rightarrow> py_error + dataframe" where
  "drop_duplicates c df =
     (if c \<notin> set (columns df) then Inl (KeyError c)
      else Inr (df\<lparr>rows := first_of_each (\<lambda>r. r c) (rows df)\<rparr>))"

text \<open>\<^verbatim>\<open>df[cols]\<close> for labels that are all present.\<close>

definition select :: "string list \<Rightarrow> dataframe \<Rightarrow> dataframe" where
  "select cols df = df\<lparr>columns := cols\<rparr>"

text \<open>
  \<^verbatim>\<open>left.merge(right, on=key, how="left")\<close>: every left row, in order, once for each right row
  with the same key (in the right table's order), or once with missing values when there is
  none. A label other than the key that both tables carry gets the suffixes \<^verbatim>\<open>_x\<close> and
  \<^verbatim>\<open>_y\<close>. (Labels that coincide only after this renaming are outside the model.)
\<close>

definition right_cols :: "string \<Rightarrow> dataframe \<Rightarrow> string list" where
  "right_cols key right = filter (\<lambda>c. c \<noteq> key) (columns right)"

definition both_cols :: "string \<Rightarrow> dataframe \<Rightarrow> dataframe \<Rightarrow> string list" where
  "both_cols key left right = filter (\<lambda>c. c \<in> set (columns left)) (right_cols key right)"

definition suffix_if :: "string list \<Rightarrow> string \<Rightarrow> string \<Rightarrow> string" where
  "suffix_if both sfx c = (if c \<in> set both then c @ sfx else c)"

definition joined_row :: "string \<Rightarrow> dataframe \<Rightarrow> dataframe \<Rightarrow> row \<Rightarrow> row \<Rightarrow> row" where
  "joined_row key left right l r =
     mk_row (map (\<lambda>c. (suffix_if (both_cols key left right) ''_x'' c, l c)) (columns left) @
             map (\<lambda>c. (suffix_if (both_cols key left right) ''_y'' c, r c)) (right_cols key right))"

definition merge_left :: "string \<Rightarrow> dataframe \<Rightarrow> dataframe \<Rightarrow> py_error + dataframe" where
  "merge_left key left right =
     (if key \<notin> set (columns left) \<or> key \<notin> set (columns right) then Inl (KeyError key)
      else Inr
        \<lparr>columns = map (suffix_if (both_cols key left right) ''_x'') (columns left) @
                   map (suffix_if (both_cols key left right) ''_y'') (right_cols key right),
         rows = concat (map (\<lambda>l.
           case filter (\<lambda>r. r key = l key) (rows right) of
             [] \<Rightarrow> [joined_row key left right l (\<lambda>n. NA)]
           | m # ms \<Rightarrow> map (joined_row key left right l) (m # ms)) (rows left))\<rparr>)"

text \<open>The aggregation \<^verbatim>\<open>"max"\<close> on a column of timestamps skips the missing ones.\<close>

fun timestamps :: "cell list \<Rightarrow> int list" where
  "timestamps [] = []"
| "timestamps (Ts t # cs) = t # timestamps cs"
| "timestamps (c # cs) = timestamps cs"

definition column_max :: "cell list \<Rightarrow> cell" where
  "column_max cs = (case timestamps cs of [] \<Rightarrow> NA | t # ts \<Rightarrow> Ts (fold max ts t))"

text \<open>\<^verbatim>\<open>lambda x: x.dropna().iloc[-1] if len(x.dropna()) > 0 else np.nan\<close>\<close>

definition last_valid :: "cell list \<Rightarrow> cell" where
  "last_valid x =
     (let dropna = filter (\<lambda>c. c \<noteq> NA) x
      in if length dropna > 0 then last dropna else NA)"

text \<open>
  The keys of \<^verbatim>\<open>groupby(c)\<close>: each key once, sorted; rows with a missing key belong to no
  group (\<^verbatim>\<open>dropna=True\<close>).
\<close>

definition group_keys :: "string \<Rightarrow> row list \<Rightarrow> cell list" where
  "group_keys c rs = remdups (sort_key cell_ord (filter (\<lambda>k. k \<noteq> NA) (map (\<lambda>r. r c) rs)))"

text \<open>
  Lines 102 to 106 of \<^verbatim>\<open>load_data\<close>: the lifecycle table sorted by order and time, then one
  row for each order with the latest timestamp and the last event type that is not missing.
  \<^verbatim>\<open>sort_values\<close> raises on a label that is absent, and so does the named aggregation.
\<close>

definition lifecycle_agg :: "dataframe \<Rightarrow> py_error + dataframe" where
  "lifecycle_agg df_lifecycle =
     (case sort_values2 ''order_id'' ''event_timestamp'' df_lifecycle of
        Inl e \<Rightarrow> Inl e
      | Inr df_lifecycle_sorted \<Rightarrow>
          if ''event_type'' \<notin> set (columns df_lifecycle_sorted) then Inl (KeyError ''event_type'')
          else Inr \<lparr>columns = [''order_id'', ''event_timestamp'', ''event_type''],
                    rows = map (\<lambda>k.
                      let x = filter (\<lambda>r. r ''order_id'' = k) (rows df_lifecycle_sorted)
                      in (\<lambda>n. NA)
                           (''order_id'' := k,
                            ''event_timestamp'' := column_max (map (\<lambda>r. r ''event_timestamp'') x),
                            ''event_type'' := last_valid (map (\<lambda>r. r ''event_type'') x)))
                      (group_keys ''order_id'' (rows df_lifecycle_sorted))\<rparr>)"

text \<open>
  \<^verbatim>\<open>.dt.to_period("M").astype(str)\<close>: the year and month of a timestamp as text. The civil
  date of a day number is computed in the proleptic Gregorian calendar; the years of a
  \<^verbatim>\<open>datetime64[ns]\<close> lie between 1677 and 2262 and have four digits. A missing timestamp
  becomes the text \<^verbatim>\<open>NaT\<close>: \<^verbatim>\<open>astype(str)\<close> formats it like any other element.
\<close>

definition civil_year_month :: "int \<Rightarrow> int \<times> int" where
  "civil_year_month days =
     (let z = days + 719468;
          era = z div 146097;
          doe = z mod 146097;
          yoe = (doe - doe div 1460 + doe div 36524 - doe div 146096) div 365;
          doy = doe - (365 * yoe + yoe div 4 - yoe div 100);
          mp = (5 * doy + 2) div 153;
          m = (if mp < 10 then mp + 3 else mp - 9);
          y = yoe + era * 400 + (if m \<le> 2 then 1 else 0)
      in (y, m))"

definition digit :: "int \<Rightarrow> char" where
  "digit d = ''0123456789'' ! nat (d mod 10)"

definition period_M_str :: "int \<Rightarrow> string" where
  "period_M_str t =
     (case civil_year_month (t div 86400000000000) of
        (y, m) \<Rightarrow> [digit (y div 1000), digit (y div 100), digit (y div 10), digit y,
                    CHR ''-'', digit (m div 10), digit m])"

fun to_period_M_astype_str :: "cell \<Rightarrow> cell" where
  "to_period_M_astype_str (Ts t) = Str (period_M_str t)"
| "to_period_M_astype_str c = Str ''NaT''"

text \<open>
  \<^verbatim>\<open>(delivered - purchase).dt.total_seconds() / (24 * 3600)\<close> for two timestamps. The
  assignment is masked to the rows where both are present, so no other case is evaluated.
\<close>

fun elapsed_days :: "cell \<Rightarrow> cell \<Rightarrow> cell" where
  "elapsed_days (Ts delivered) (Ts purchase) =
     Num (of_int (delivered - purchase) / 1000000000 / (24 * 3600))"
| "elapsed_days c c' = NA"

section \<open>Loading and preparing the data\<close>

text \<open>Lines 65 to 74: the date columns of the orders are parsed when the table is not empty.\<close>

definition date_cols :: "string list" where
  "date_cols =
     [''order_purchase_timestamp'', ''order_approved_at'',
      ''order_delivered_carrier_date'', ''order_delivered_customer_date'',
      ''order_estimated_delivery_date'']"

definition parse_date_col :: "pandas \<Rightarrow> string \<Rightarrow> dataframe \<Rightarrow> dataframe" where
  "parse_date_col L c df =
     (if c \<in> set (columns df) then set_col df c (to_datetime_safe L (Some (col df c)) None)
      else df)"

definition parse_order_dates :: "pandas \<Rightarrow> dataframe \<Rightarrow> dataframe" where
  "parse_order_dates L df_orders =
     (if \<not> df_empty df_orders then fold (parse_date_col L) date_cols df_orders else df_orders)"

text \<open>Lines 76 to 78.\<close>

definition parse_lifecycle :: "pandas \<Rightarrow> dataframe \<Rightarrow> dataframe" where
  "parse_lifecycle L df_lifecycle =
     (if \<not> df_empty df_lifecycle \<and> ''event_timestamp'' \<in> set (columns df_lifecycle)
      then parse_date_col L ''event_timestamp'' df_lifecycle
      else df_lifecycle)"

text \<open>
  Lines 80 to 94, table by table, after the parsing above: the columns that might be missing,
  and the instalments as numbers with 0 for what is not one.
\<close>

definition prepare_orders :: "pandas \<Rightarrow> dataframe \<Rightarrow> dataframe" where
  "prepare_orders L df_orders =
     ensure_col (ensure_col (ensure_col (parse_order_dates L df_orders)
       ''order_id'' (Str '''')) ''customer_id'' (Str '''')) ''order_status'' (Str '''')"

definition installments_to_numeric :: "pandas \<Rightarrow> dataframe \<Rightarrow> dataframe" where
  "installments_to_numeric L df_payments =
     (if ''payment_installments'' \<in> set (columns df_payments)
      then set_col df_payments ''payment_installments''
             (fillna (Num 0) (to_numeric L (col df_payments ''payment_installments'')))
      else df_payments)"

definition prepare_payments :: "pandas \<Rightarrow> dataframe \<Rightarrow> dataframe" where
  "prepare_payments L df_payments =
     installments_to_numeric L
       (ensure_col (ensure_col df_payments ''order_id'' (Str '''')) ''payment_installments'' (Num 0))"

definition prepare_products :: "dataframe \<Rightarrow> dataframe" where
  "prepare_products df_products =
     ensure_col (ensure_col df_products ''product_id'' (Str ''''))
       ''product_category_name'' (Str ''Unknown'')"

definition prepare_customers :: "dataframe \<Rightarrow> dataframe" where
  "prepare_customers df_customers =
     ensure_col (ensure_col (ensure_col df_customers ''customer_id'' (Str ''''))
       ''customer_city'' NA) ''customer_state'' NA"

text \<open>Lines 99 to 107: the lifecycle aggregate joined onto the orders.\<close>

definition merge_lifecycle :: "dataframe \<Rightarrow> dataframe \<Rightarrow> py_error + dataframe" where
  "merge_lifecycle df_enriched df_lifecycle =
     (if \<not> df_empty df_lifecycle \<and> ''order_id'' \<in> set (columns df_lifecycle) then
        (case lifecycle_agg df_lifecycle of
           Inl e \<Rightarrow> Inl e
         | Inr agg \<Rightarrow> merge_left ''order_id'' df_enriched agg)
      else Inr df_enriched)"

text \<open>Lines 109 to 112.\<close>

definition merge_customers :: "dataframe \<Rightarrow> dataframe \<Rightarrow> py_error + dataframe" where
  "merge_customers df_enriched df_customers =
     (if \<not> df_empty df_customers \<and> ''customer_id'' \<in> set (columns df_enriched) then
        (let cols = filter (\<lambda>c. c \<in> set (columns df_customers))
                      [''customer_id'', ''customer_city'', ''customer_state'']
         in case drop_duplicates ''customer_id'' (select cols df_customers) of
              Inl e \<Rightarrow> Inl e
            | Inr firsts \<Rightarrow> merge_left ''customer_id'' df_enriched firsts)
      else Inr df_enriched)"

text \<open>Lines 114 to 119.\<close>

definition payments_small :: "pandas \<Rightarrow> dataframe \<Rightarrow> py_error + dataframe" where
  "payments_small L df_payments =
     (case sort_values L ''payment_installments'' df_payments of
        Inl e \<Rightarrow> Inl e
      | Inr sorted_payments \<Rightarrow> drop_duplicates ''order_id'' sorted_payments)"

definition merge_payments :: "pandas \<Rightarrow> dataframe \<Rightarrow> dataframe \<Rightarrow> py_error + dataframe" where
  "merge_payments L df_enriched df_payments =
     (if \<not> df_empty df_payments \<and> ''order_id'' \<in> set (columns df_payments) then
        (case payments_small L df_payments of
           Inl e \<Rightarrow> Inl e
         | Inr small \<Rightarrow>
             (let cols = filter (\<lambda>c. c \<in> set (columns small))
                           [''order_id'', ''payment_type'', ''payment_installments'', ''payment_value'']
              in if cols \<noteq> [] then merge_left ''order_id'' df_enriched (select cols small)
                 else Inr df_enriched))
      else Inr df_enriched)"

text \<open>Lines 121 to 125.\<close>

definition default_payment_value :: "pandas \<Rightarrow> dataframe \<Rightarrow> dataframe" where
  "default_payment_value L df_enriched =
     (if ''payment_value'' \<in> set (columns df_enriched)
      then set_col df_enriched ''payment_value''
             (fillna (Num 100) (to_numeric L (col df_enriched ''payment_value'')))
      else set_col_scalar df_enriched ''payment_value'' (Num 100))"

text \<open>Lines 96 to 119: the three joins onto a copy of the prepared orders.\<close>

definition join_tables ::
  "pandas \<Rightarrow> dataframe \<Rightarrow> dataframe \<Rightarrow> dataframe \<Rightarrow> dataframe \<Rightarrow> py_error + dataframe" where
  "join_tables L df_orders df_lifecycle df_customers df_payments =
     (case merge_lifecycle df_orders df_lifecycle of
        Inl e \<Rightarrow> Inl e
      | Inr with_lifecycle \<Rightarrow>
     (case merge_customers with_lifecycle df_customers of
        Inl e \<Rightarrow> Inl e
      | Inr with_customers \<Rightarrow> merge_payments L with_customers df_payments))"

text \<open>Lines 96 to 125: the enrichment join on the prepared tables.\<close>

definition enrich ::
  "pandas \<Rightarrow> dataframe \<Rightarrow> dataframe \<Rightarrow> dataframe \<Rightarrow> dataframe \<Rightarrow> py_error + dataframe" where
  "enrich L df_orders df_lifecycle df_customers df_payments =
     (case join_tables L df_orders df_lifecycle df_customers df_payments of
        Inl e \<Rightarrow> Inl e
      | Inr with_payments \<Rightarrow> Inr (default_payment_value L with_payments))"

text \<open>Lines 127 to 132.\<close>

definition add_month :: "pandas \<Rightarrow> string \<times> string \<Rightarrow> dataframe \<Rightarrow> dataframe" where
  "add_month L cn df_enriched =
     (case cn of (c, name) \<Rightarrow>
        if c \<in> set (columns df_enriched)
        then set_col df_enriched name
               (map to_period_M_astype_str (to_datetime L None (col df_enriched c)))
        else set_col_scalar df_enriched name NA)"

definition add_months :: "pandas \<Rightarrow> dataframe \<Rightarrow> dataframe" where
  "add_months L df_enriched =
     fold (add_month L)
       [(''order_purchase_timestamp'', ''month''), (''event_timestamp'', ''lifecycle_month'')]
       df_enriched"

text \<open>
  Lines 134 to 140. The masked assignment writes the rows where both timestamps are present and
  leaves the others as they are, which is missing when the column is new. The two columns are
  timestamps only if line 66 parsed them, that is, if the orders as read were not empty;
  otherwise they are still of the type that \<^verbatim>\<open>read_csv\<close> gives the columns of a table
  without rows, and the accessor \<^verbatim>\<open>.dt\<close> raises on their difference.
\<close>

definition add_processing_time :: "bool \<Rightarrow> dataframe \<Rightarrow> py_error + dataframe" where
  "add_processing_time dates_parsed df_enriched =
     (if ''order_delivered_customer_date'' \<in> set (columns df_enriched) \<and>
         ''order_purchase_timestamp'' \<in> set (columns df_enriched) then
        if \<not> dates_parsed then Inl AttributeError
        else Inr
          \<lparr>columns = (if ''processing_time_days'' \<in> set (columns df_enriched)
                      then columns df_enriched
                      else columns df_enriched @ [''processing_time_days'']),
           rows = map (\<lambda>r.
             if r ''order_delivered_customer_date'' \<noteq> NA \<and> r ''order_purchase_timestamp'' \<noteq> NA
             then r(''processing_time_days'' :=
                      elapsed_days (r ''order_delivered_customer_date'') (r ''order_purchase_timestamp''))
             else if ''processing_time_days'' \<in> set (columns df_enriched) then r
             else r(''processing_time_days'' := NA)) (rows df_enriched)\<rparr>
      else Inr df_enriched)"

record loaded =
  payments :: dataframe
  products :: dataframe
  customers :: dataframe
  sellers :: dataframe
  orders :: dataframe
  lifecycle :: dataframe
  enriched :: dataframe

text \<open>
  \<^verbatim>\<open>load_data\<close>. (The loop of lines 61 to 63 only rebinds its own variable.)
\<close>

definition load_data :: "pandas \<Rightarrow> files \<Rightarrow> py_error + loaded" where
  "load_data L fs =
     (let df_payments = safe_read_csv fs ''data/dim_payments.csv'';
          df_products = safe_read_csv fs ''data/dim_products.csv'';
          df_customers = safe_read_csv fs ''data/dim_customer.csv'';
          df_sellers = safe_read_csv fs ''data/dim_sellers.csv'';
          df_orders = safe_read_csv fs ''data/dim_order.csv'';
          df_lifecycle = safe_read_csv fs ''data/fact_order_lifecycle.csv'';
          dates_parsed = (\<not> df_empty df_orders);
          df_orders = prepare_orders L df_orders;
          df_lifecycle = parse_lifecycle L df_lifecycle;
          df_payments = prepare_payments L df_payments;
          df_products = prepare_products df_products;
          df_customers = prepare_customers df_customers
      in case enrich L df_orders df_lifecycle df_customers df_payments of
           Inl e \<Rightarrow> Inl e
         | Inr df_enriched \<Rightarrow>
        (case add_processing_time dates_parsed (add_months L df_enriched) of
           Inl e \<Rightarrow> Inl e
         | Inr df_enriched \<Rightarrow>
             Inr \<lparr>payments = df_payments, products = df_products, customers = df_customers,
                  sellers = df_sellers, orders = df_orders, lifecycle = df_lifecycle,
                  enriched = df_enriched\<rparr>))"

section \<open>A small data set\<close>

text \<open>
  Tables as \<^verbatim>\<open>read_csv\<close> returns them, and one admissible behaviour of the library on the
  texts that occur in them; the instances of the theorems below are computed on these.
\<close>

definition table :: "string list \<Rightarrow> cell list list \<Rightarrow> dataframe" where
  "table cols lines = \<lparr>columns = cols, rows = map (\<lambda>vs. mk_row (zip cols vs)) lines\<rparr>"

definition sample_strptime :: "string \<Rightarrow> cell \<Rightarrow> int option" where
  "sample_strptime fmt c =
     (case c of
        Str s \<Rightarrow>
          map_of
            [((''%Y-%m-%d %H:%M:%S'', ''2024-01-15 10:30:00''), 1705314600000000000),
             ((''%Y-%m-%d %H:%M:%S'', ''2024-01-17 08:00:00''), 1705478400000000000),
             ((''%Y-%m-%d %H:%M:%S'', ''2024-01-18 22:30:00''), 1705617000000000000),
             ((''%Y-%m-%d %H:%M:%S'', ''2024-01-14 10:30:00''), 1705228200000000000),
             ((''%Y-%m-%d %H:%M'', ''2024-01-15 10:30''), 1705314600000000000),
             ((''%d/%m/%Y %H:%M:%S'', ''17/01/2024 08:00:00''), 1705478400000000000)]
            (fmt, s)
      | _ \<Rightarrow> None)"

text \<open>Without a format, this library reads the ISO form with a \<^verbatim>\<open>T\<close> as well.\<close>

definition sample_guess_datetime :: "cell list \<Rightarrow> cell \<Rightarrow> int option" where
  "sample_guess_datetime cs c =
     (case c of
        Str s \<Rightarrow>
          map_of
            [(''2024-01-15T10:30:00'', 1705314600000000000),
             (''2024-01-15 10:30:00'', 1705314600000000000),
             (''2024-01-17 08:00:00'', 1705478400000000000),
             (''2024-01-18 22:30:00'', 1705617000000000000),
             (''2024-01-14 10:30:00'', 1705228200000000000)] s
      | _ \<Rightarrow> None)"

definition sample_str_to_float :: "string \<Rightarrow> rat option" where
  "sample_str_to_float s = map_of [(''1'', 1), (''2'', 2), (''3'', 3)] s"

text \<open>A library whose sort happens to be stable, and one that leaves equal keys reversed.\<close>

definition sample_lib :: pandas where
  "sample_lib =
     \<lparr>strptime = sample_strptime,
      guess_datetime = sample_guess_datetime,
      str_to_float = sample_str_to_float,
      tie_rank = (\<lambda>cs i. 0)\<rparr>"


definition sample_orders :: dataframe where
  "sample_orders =
     table [''order_id'', ''customer_id'', ''order_status'',
            ''order_purchase_timestamp'', ''order_delivered_customer_date'']
       [[Str ''A'', Str ''c1'', Str ''delivered'', Str ''2024-01-15 10:30:00'', Str ''2024-01-18 22:30:00''],
        [Str ''B'', Str ''c2'', Str ''delivered'', Str ''2024-01-15 10:30:00'', Str ''2024-01-14 10:30:00''],
        [Str ''C'', Str ''c1'', Str ''shipped'', Str ''2024-01-17 08:00:00'', NA],
        [Str ''D'', Str ''c3'', Str ''delivered'', NA, Str ''2024-01-18 22:30:00'']]"

definition sample_payments :: dataframe where
  "sample_payments =
     table [''order_id'', ''payment_type'', ''payment_installments'', ''payment_value'']
       [[Str ''A'', Str ''credit_card'', Str ''3'', Num 250],
        [Str ''A'', Str ''voucher'', Str ''1'', Num 40],
        [Str ''B'', Str ''boleto'', Str ''2'', Num (199 / 2)],
        [Str ''D'', Str ''debit_card'', Str ''2'', Num 20],
        [Str ''D'', Str ''credit_card'', Str ''n/a'', Num 10]]"

definition sample_lifecycle :: dataframe where
  "sample_lifecycle =
     table [''order_id'', ''event_type'', ''event_timestamp'']
       [[Str ''A'', Str ''order_created'', Str ''2024-01-15 10:30:00''],
        [Str ''A'', Str ''order_shipped'', Str ''2024-01-17 08:00:00''],
        [Str ''B'', Str ''order_created'', Str ''2024-01-15 10:30:00'']]"

definition sample_customers :: dataframe where
  "sample_customers =
     table [''customer_id'', ''customer_city'', ''customer_state'']
       [[Str ''c1'', Str ''sao paulo'', Str ''SP''],
        [Str ''c2'', Str ''niteroi'', Str ''RJ''],
        [Str ''c1'', Str ''campinas'', Str ''SP'']]"

text \<open>The products are unreadable and the sellers' file does not exist.\<close>

definition sample_files :: files where
  "sample_files path =
     (if path = ''data/dim_order.csv'' then Inr sample_orders
      else if path = ''data/dim_payments.csv'' then Inr sample_payments
      else if path = ''data/fact_order_lifecycle.csv'' then Inr sample_lifecycle
      else if path = ''data/dim_customer.csv'' then Inr sample_customers
      else if path = ''data/dim_products.csv'' then Inl (OtherException ''ParserError'')
      else Inl FileNotFoundError)"

text \<open>The orders carry a column of processing times of their own; everything else is missing.\<close>

definition own_days_files :: files where
  "own_days_files path =
     (if path = ''data/dim_order.csv'' then
        Inr (table [''order_id'', ''order_purchase_timestamp'', ''order_delivered_customer_date'',
                    ''processing_time_days'']
               [[Str ''A'', Str ''2024-01-15 10:30:00'', NA, Num 9]])
      else Inl FileNotFoundError)"

text \<open>Two orders, the second without a purchase timestamp and without a lifecycle event.\<close>

definition month_files :: files where
  "month_files path =
     (if path = ''data/dim_order.csv'' then
        Inr (table [''order_id'', ''order_purchase_timestamp'']
               [[Str ''A'', Str ''2024-01-15 10:30:00''],
                [Str ''B'', NA]])
      else if path = ''data/fact_order_lifecycle.csv'' then
        Inr (table [''order_id'', ''event_type'', ''event_timestamp'']
               [[Str ''A'', Str ''order_shipped'', Str ''2024-01-17 08:00:00'']])
      else Inl FileNotFoundError)"


section \<open>Notions used in the statements and proofs\<close>

text \<open>
  The right row that a left row is joined with when the key is unique on the right: the first
  with the same key, or a row of missing values when there is none.
\<close>

definition partner :: "string \<Rightarrow> dataframe \<Rightarrow> row \<Rightarrow> row" where
  "partner key right l =
     (case find (\<lambda>r. r key = l key) (rows right) of None \<Rightarrow> (\<lambda>n. NA) | Some r \<Rightarrow> r)"

text \<open>A label that no suffixed form of the labels \<open>rcols\<close> coincides with.\<close>

definition fresh :: "string list \<Rightarrow> string \<Rightarrow> bool" where
  "fresh rcols c \<longleftrightarrow> (\<forall>c' \<in> set rcols. c' @ ''_x'' \<noteq> c \<and> c' @ ''_y'' \<noteq> c)"

text \<open>
  Table \<open>b\<close> has the rows of \<open>a\<close>, one for one and in order, and differs from it at most in
  the columns \<open>J\<close> and their suffixed forms.
\<close>

definition extends :: "string list \<Rightarrow> dataframe \<Rightarrow> dataframe \<Rightarrow> bool" where
  "extends J a b \<longleftrightarrow>
     length (rows b) = length (rows a) \<and>
     (\<forall>c. c \<notin> set J \<and> fresh J c \<longrightarrow>
        (c \<in> set (columns b) \<longleftrightarrow> c \<in> set (columns a)) \<and>
        (c \<in> set (columns a) \<longrightarrow> col b c = col a c))"

definition joined_labels :: "string list" where
  "joined_labels = [''event_timestamp'', ''event_type'', ''customer_city'', ''customer_state'',
     ''payment_type'', ''payment_installments'', ''payment_value'']"

text \<open>
  A lifecycle table on which lines 100 to 107 do not raise: it is empty, or has no order
  identifiers (the join is skipped), or has both columns that the aggregation reads.
\<close>

definition lifecycle_columns_ok :: "dataframe \<Rightarrow> bool" where
  "lifecycle_columns_ok df \<longleftrightarrow>
     df_empty df \<or> ''order_id'' \<notin> set (columns df) \<or>
     (''event_timestamp'' \<in> set (columns df) \<and> ''event_type'' \<in> set (columns df))"

text \<open>A cell of a row of a table is present: the table has the column and the cell is not missing.\<close>

definition present :: "dataframe \<Rightarrow> row \<Rightarrow> string \<Rightarrow> bool" where
  "present df r c \<longleftrightarrow> c \<in> set (columns df) \<and> r c \<noteq> NA"

text \<open>A column of the date-time type: every cell is a timestamp or missing.\<close>

definition datetime_typed :: "cell list \<Rightarrow> bool" where
  "datetime_typed cs \<longleftrightarrow> (\<forall>c \<in> set cs. c = NA \<or> (\<exists>t. c = Ts t))"

text \<open>The labels that lines 96 to 132 may write.\<close>

definition derived_labels :: "string list" where
  "derived_labels = joined_labels @ [''month'', ''lifecycle_month'']"

text \<open>
  Files on which \<^verbatim>\<open>load_data\<close> does not raise: the lifecycle table is one that the
  aggregation accepts, and the orders are not a table without rows that has both columns
  whose difference line 137 takes.
\<close>

definition load_data_returns :: "files \<Rightarrow> bool" where
  "load_data_returns fs \<longleftrightarrow>
     lifecycle_columns_ok (safe_read_csv fs ''data/fact_order_lifecycle.csv'') \<and>
     \<not> (df_empty (safe_read_csv fs ''data/dim_order.csv'') \<and>
        ''order_delivered_customer_date'' \<in> set (columns (safe_read_csv fs ''data/dim_order.csv'')) \<and>
        ''order_purchase_timestamp'' \<in> set (columns (safe_read_csv fs ''data/dim_order.csv'')))"

section \<open>Properties of the utilities\<close>


lemma to_datetime_typed: "c \<in> set (to_datetime L format series) \<Longrightarrow> c = NA \<or> (\<exists>t. c = Ts t)"
proof -
  have "to_datetime_cell p x = NA \<or> (\<exists>t. to_datetime_cell p x = Ts t)" for p x
    by (cases x) (simp_all split: option.splits)
  then show "c \<in> set (to_datetime L format series) \<Longrightarrow> c = NA \<or> (\<exists>t. c = Ts t)"
    by (auto simp: to_datetime_def split: option.splits)
qed

lemma try_formats_typed: "c \<in> set (try_formats L fmts s) \<Longrightarrow> c = NA \<or> (\<exists>t. c = Ts t)"
  by (induction fmts) (auto simp: Let_def dest: to_datetime_typed split: if_splits)


text \<open>
  Claim C8. The table loader returns a table for every path: when the file is missing or
  cannot be parsed, the result is the empty table, without rows or columns, and nothing reaches
  the caller; when the file is read, the result is its table.
\<close>

theorem safe_read_csv_never_fails:
  "(fs path = Inl e \<longrightarrow>
      safe_read_csv fs path = DataFrame \<and> rows (safe_read_csv fs path) = [] \<and>
      columns (safe_read_csv fs path) = []) \<and>
   (fs path = Inr df \<longrightarrow> safe_read_csv fs path = df)"
  by (cases e) (simp_all add: safe_read_csv_def DataFrame_def)

theorem safe_read_csv_never_fails_witness:
  "sample_files ''data/dim_sellers.csv'' = Inl FileNotFoundError \<and>
   sample_files ''data/dim_customer.csv'' = Inr sample_customers \<and>
   safe_read_csv sample_files ''data/dim_sellers.csv'' = DataFrame \<and>
   rows (safe_read_csv sample_files ''data/dim_sellers.csv'') = [] \<and>
   safe_read_csv sample_files ''data/dim_customer.csv'' = sample_customers"
  using safe_read_csv_never_fails [of sample_files "''data/dim_sellers.csv''" FileNotFoundError]
    safe_read_csv_never_fails [of sample_files "''data/dim_customer.csv''" _ sample_customers]
  by (simp add: sample_files_def DataFrame_def)



text \<open>
  Claim C9. The column guarantor is idempotent: a second application with the same arguments
  changes nothing. It has no failing case (it is a total function of the table, the label and
  the scalar default); the label is among the columns afterwards and the number of rows is the
  same.
\<close>

theorem ensure_col_idempotent:
  "ensure_col (ensure_col df c d) c d = ensure_col df c d \<and>
   c \<in> set (columns (ensure_col df c d)) \<and>
   length (rows (ensure_col df c d)) = length (rows df)"
  by (simp add: ensure_col_def set_col_scalar_def)


section \<open>Tables through the joins\<close>


subsection \<open>Column assignment\<close>

lemma rows_set_col_length [simp]: "length (rows (set_col df c vs)) = length (rows df)"
  by (simp add: set_col_def)

lemma rows_set_col_scalar_length [simp]: "length (rows (set_col_scalar df c v)) = length (rows df)"
  by (simp add: set_col_scalar_def)

lemma columns_set_col [simp]: "set (columns (set_col df c vs)) = insert c (set (columns df))"
  by (auto simp: set_col_def)

lemma columns_set_col_scalar [simp]:
  "set (columns (set_col_scalar df c v)) = insert c (set (columns df))"
  by (auto simp: set_col_scalar_def)

lemma nth_rows_set_col:
  "i < length (rows df) \<Longrightarrow>
   rows (set_col df c vs) ! i = (rows df ! i)(c := (if i < length vs then vs ! i else NA))"
  by (simp add: set_col_def nth_enumerate_eq)


lemma col_set_col_other: "c' \<noteq> c \<Longrightarrow> col (set_col df c vs) c' = col df c'"
  by (rule nth_equalityI) (simp_all add: col_def nth_rows_set_col)

lemma col_set_col_scalar_other: "c' \<noteq> c \<Longrightarrow> col (set_col_scalar df c v) c' = col df c'"
  by (simp add: col_def set_col_scalar_def)

lemma col_set_col_same:
  "length vs = length (rows df) \<Longrightarrow> col (set_col df c vs) c = vs"
  by (rule nth_equalityI) (simp_all add: col_def nth_rows_set_col)

lemma length_col [simp]: "length (col df c) = length (rows df)"
  by (simp add: col_def)

lemma rows_ensure_col_length [simp]: "length (rows (ensure_col df c d)) = length (rows df)"
  by (simp add: ensure_col_def)

lemma columns_ensure_col [simp]: "set (columns (ensure_col df c d)) = insert c (set (columns df))"
  by (auto simp: ensure_col_def)

lemma col_ensure_col_other: "c' \<noteq> c \<Longrightarrow> col (ensure_col df c d) c' = col df c'"
  by (simp add: ensure_col_def col_set_col_scalar_other)

lemma col_ensure_col_present: "c' \<in> set (columns df) \<Longrightarrow> col (ensure_col df c d) c' = col df c'"
  by (cases "c' = c") (simp_all add: ensure_col_def col_set_col_scalar_other)

subsection \<open>The first row of each key\<close>

lemma set_first_of_each_subset: "set (first_of_each f xs) \<subseteq> set xs"
  by (induction f xs rule: first_of_each.induct) auto


lemma distinct_first_of_each: "distinct (map f (first_of_each f xs))"
proof (induction f xs rule: first_of_each.induct)
  case (1 f)
  show ?case by simp
next
  case (2 f x xs)
  have "f x \<notin> f ` set (first_of_each f (filter (\<lambda>y. f y \<noteq> f x) xs))"
    using set_first_of_each_subset [of f "filter (\<lambda>y. f y \<noteq> f x) xs"] by auto
  with 2 show ?case by simp
qed



subsection \<open>Joining on a key that is unique on the right\<close>

lemma filter_distinct_key:
  "distinct (map f rs) \<Longrightarrow>
   filter (\<lambda>r. f r = k) rs = (case find (\<lambda>r. f r = k) rs of None \<Rightarrow> [] | Some r \<Rightarrow> [r])"
proof (induction rs)
  case Nil
  show ?case by simp
next
  case (Cons r rs)
  show ?case
  proof (cases "f r = k")
    case True
    with Cons.prems have "filter (\<lambda>r. f r = k) rs = []"
      by (force simp: filter_empty_conv image_iff)
    with True show ?thesis by simp
  next
    case False
    with Cons show ?thesis by simp
  qed
qed

lemma merge_left_unique:
  assumes "merge_left key left right = Inr out"
    and "distinct (map (\<lambda>r. r key) (rows right))"
  shows "rows out = map (\<lambda>l. joined_row key left right l (partner key right l)) (rows left)"
proof -
  have *: "(case filter (\<lambda>r. r key = l key) (rows right) of
              [] \<Rightarrow> [joined_row key left right l (\<lambda>n. NA)]
            | m # ms \<Rightarrow> map (joined_row key left right l) (m # ms)) =
           [joined_row key left right l (partner key right l)]" for l
    using filter_distinct_key [OF assms(2), of "l key"]
    by (simp add: partner_def split: option.splits)
  from assms(1) have "rows out = concat (map (\<lambda>l.
           case filter (\<lambda>r. r key = l key) (rows right) of
             [] \<Rightarrow> [joined_row key left right l (\<lambda>n. NA)]
           | m # ms \<Rightarrow> map (joined_row key left right l) (m # ms)) (rows left))"
    by (auto simp: merge_left_def split: if_splits)
  then show ?thesis
    by (simp add: *)
qed



lemma fresh_mono: "set rc \<subseteq> set J \<Longrightarrow> fresh J c \<Longrightarrow> fresh rc c"
  by (auto simp: fresh_def)

lemma map_of_map_hit:
  "c \<in> set xs \<Longrightarrow> (\<forall>c' \<in> set xs. g c' = g c \<longrightarrow> h c' = h c) \<Longrightarrow>
   map_of (map (\<lambda>c. (g c, h c)) xs) (g c) = Some (h c)"
proof (induction xs)
  case Nil
  then show ?case by simp
next
  case (Cons a xs)
  show ?case
  proof (cases "g a = g c")
    case True
    from Cons.prems(2) [rule_format, of a] True have "h a = h c" by simp
    with True show ?thesis by simp
  next
    case False
    with Cons.prems(1) have "c \<in> set xs" by auto
    moreover from Cons.prems(2) have "\<forall>c' \<in> set xs. g c' = g c \<longrightarrow> h c' = h c"
      by (simp del: imp_disjL)
    ultimately have "map_of (map (\<lambda>c. (g c, h c)) xs) (g c) = Some (h c)"
      by (rule Cons.IH)
    with False show ?thesis by simp
  qed
qed


lemma suffix_if_eq_fresh:
  assumes "fresh rc c" "set both \<subseteq> set rc" "sfx = ''_x'' \<or> sfx = ''_y''"
  shows "suffix_if both sfx c' = c \<longleftrightarrow> c' = c \<and> c \<notin> set both"
proof (cases "c' \<in> set both")
  case True
  then have "c' \<in> set rc" using assms(2) by blast
  then have "c' @ ''_x'' \<noteq> c" "c' @ ''_y'' \<noteq> c"
    using assms(1) unfolding fresh_def by blast+
  then have "c' @ sfx \<noteq> c" using assms(3) by blast
  with True show ?thesis by (auto simp add: suffix_if_def)
next
  case False
  then show ?thesis by (auto simp add: suffix_if_def)
qed

lemma both_cols_subset: "set (both_cols key left right) \<subseteq> set (right_cols key right)"
  by (auto simp: both_cols_def)

lemma in_both_cols:
  "c \<in> set (both_cols key left right) \<longleftrightarrow> c \<in> set (columns left) \<and> c \<in> set (right_cols key right)"
  by (auto simp: both_cols_def)

lemma joined_row_left:
  assumes "c \<in> set (columns left)" "c \<notin> set (right_cols key right)"
    "fresh (right_cols key right) c"
  shows "joined_row key left right l r c = l c"
proof -
  let ?b = "both_cols key left right"
  have x: "suffix_if ?b ''_x'' c' = c \<longleftrightarrow> c' = c \<and> c \<notin> set ?b" for c'
    by (rule suffix_if_eq_fresh [OF assms(3) both_cols_subset]) simp
  have nb: "c \<notin> set ?b" using assms(2) by (simp add: in_both_cols)
  have g: "suffix_if ?b ''_x'' c = c" using nb by (simp add: suffix_if_def)
  have "\<forall>c' \<in> set (columns left). suffix_if ?b ''_x'' c' = suffix_if ?b ''_x'' c \<longrightarrow> l c' = l c"
    unfolding g by (simp add: x)
  from map_of_map_hit [OF assms(1) this]
  have "map_of (map (\<lambda>c. (suffix_if ?b ''_x'' c, l c)) (columns left)) c = Some (l c)"
    using g by simp
  then show ?thesis
    by (simp add: joined_row_def mk_row_def map_add_def)
qed


lemma merge_left_columns:
  assumes "merge_left key left right = Inr out" "fresh (right_cols key right) c"
  shows "c \<in> set (columns out) \<longleftrightarrow>
         (c \<in> set (columns left) \<and> c \<notin> set (right_cols key right)) \<or>
         (c \<in> set (right_cols key right) \<and> c \<notin> set (columns left))"
proof -
  let ?b = "both_cols key left right"
  have cols: "columns out = map (suffix_if ?b ''_x'') (columns left) @
                map (suffix_if ?b ''_y'') (right_cols key right)"
    using assms(1) by (auto simp: merge_left_def split: if_splits)
  have x: "suffix_if ?b ''_x'' c' = c \<longleftrightarrow> c' = c \<and> c \<notin> set ?b" for c'
    by (rule suffix_if_eq_fresh [OF assms(2) both_cols_subset]) simp
  have y: "suffix_if ?b ''_y'' c' = c \<longleftrightarrow> c' = c \<and> c \<notin> set ?b" for c'
    by (rule suffix_if_eq_fresh [OF assms(2) both_cols_subset]) simp
  have "c \<in> set (columns out) \<longleftrightarrow>
        (\<exists>c' \<in> set (columns left). suffix_if ?b ''_x'' c' = c) \<or>
        (\<exists>c' \<in> set (right_cols key right). suffix_if ?b ''_y'' c' = c)"
    unfolding cols by auto
  also have "\<dots> \<longleftrightarrow> (c \<in> set (columns left) \<and> c \<notin> set ?b) \<or>
                       (c \<in> set (right_cols key right) \<and> c \<notin> set ?b)"
    unfolding x y by blast
  finally show ?thesis
    unfolding in_both_cols by blast
qed

lemma merge_left_length:
  assumes "merge_left key left right = Inr out" "distinct (map (\<lambda>r. r key) (rows right))"
  shows "length (rows out) = length (rows left)"
  by (simp add: merge_left_unique [OF assms])

lemma merge_left_keeps:
  assumes "merge_left key left right = Inr out" "distinct (map (\<lambda>r. r key) (rows right))"
    "c \<in> set (columns left)" "c \<notin> set (right_cols key right)" "fresh (right_cols key right) c"
  shows "col out c = col left c"
  by (simp add: col_def merge_left_unique [OF assms(1,2)] joined_row_left [OF assms(3,4,5)])


lemma merge_left_ok:
  "key \<in> set (columns left) \<Longrightarrow> key \<in> set (columns right) \<Longrightarrow>
   \<exists>out. merge_left key left right = Inr out"
  by (simp add: merge_left_def)



lemma extends_refl: "extends J a a"
  by (simp add: extends_def)

lemma extends_mono: "extends J a b \<Longrightarrow> set J \<subseteq> set J' \<Longrightarrow> extends J' a b"
  unfolding extends_def using fresh_mono [of J J'] by blast

lemma extends_trans: "extends J a b \<Longrightarrow> extends J b c \<Longrightarrow> extends J a c"
  unfolding extends_def by auto

lemma extendsD:
  assumes "extends J a b" "c \<notin> set J" "fresh J c"
  shows "c \<in> set (columns b) \<longleftrightarrow> c \<in> set (columns a)"
    and "c \<in> set (columns a) \<Longrightarrow> col b c = col a c"
  using assms unfolding extends_def by blast+

lemma extends_length: "extends J a b \<Longrightarrow> length (rows b) = length (rows a)"
  by (simp add: extends_def)

lemma extends_set_col: "extends [n] df (set_col df n vs)"
  by (auto simp: extends_def col_set_col_other)

lemma extends_set_col_scalar: "extends [n] df (set_col_scalar df n v)"
  by (auto simp: extends_def col_set_col_scalar_other)

lemma extends_ensure_col: "extends [n] df (ensure_col df n v)"
  by (simp add: ensure_col_def extends_set_col_scalar extends_refl)

lemma merge_left_extends:
  assumes m: "merge_left key left right = Inr out"
    and d: "distinct (map (\<lambda>r. r key) (rows right))"
    and J: "set (right_cols key right) \<subseteq> set J"
  shows "extends J left out"
  unfolding extends_def
proof (intro conjI allI impI)
  show "length (rows out) = length (rows left)"
    by (rule merge_left_length [OF m d])
next
  fix c assume c: "c \<notin> set J \<and> fresh J c"
  then have nr: "c \<notin> set (right_cols key right)" and f: "fresh (right_cols key right) c"
    using J fresh_mono [OF J] by auto
  show "c \<in> set (columns out) \<longleftrightarrow> c \<in> set (columns left)"
    using merge_left_columns [OF m f] nr by blast
next
  fix c assume c: "c \<notin> set J \<and> fresh J c" and l: "c \<in> set (columns left)"
  then have nr: "c \<notin> set (right_cols key right)" and f: "fresh (right_cols key right) c"
    using J fresh_mono [OF J] by auto
  show "col out c = col left c"
    by (rule merge_left_keeps [OF m d l nr f])
qed

subsection \<open>The lifecycle aggregate\<close>

lemma lifecycle_agg_shape:
  assumes "lifecycle_agg df = Inr agg"
  shows "columns agg = [''order_id'', ''event_timestamp'', ''event_type'']"
    and "map (\<lambda>r. r ''order_id'') (rows agg) =
         group_keys ''order_id'' (sort_key (\<lambda>r. (cell_ord (r ''order_id''), cell_ord (r ''event_timestamp''))) (rows df))"
  using assms
  by (auto simp: lifecycle_agg_def sort_values2_def Let_def comp_def split: if_splits sum.splits)

lemma distinct_group_keys: "distinct (group_keys c rs)"
  by (simp add: group_keys_def)

lemma lifecycle_agg_distinct:
  "lifecycle_agg df = Inr agg \<Longrightarrow> distinct (map (\<lambda>r. r ''order_id'') (rows agg))"
  by (simp add: lifecycle_agg_shape(2) distinct_group_keys)

lemma lifecycle_agg_ok:
  "''order_id'' \<in> set (columns df) \<Longrightarrow> ''event_timestamp'' \<in> set (columns df) \<Longrightarrow>
   ''event_type'' \<in> set (columns df) \<Longrightarrow> \<exists>agg. lifecycle_agg df = Inr agg"
  by (simp add: lifecycle_agg_def sort_values2_def)

lemma merge_lifecycle_extends:
  assumes "merge_lifecycle left lc = Inr out"
  shows "extends [''event_timestamp'', ''event_type''] left out"
proof (cases "\<not> df_empty lc \<and> ''order_id'' \<in> set (columns lc)")
  case True
  with assms obtain agg where a: "lifecycle_agg lc = Inr agg"
    and m: "merge_left ''order_id'' left agg = Inr out"
    by (auto simp: merge_lifecycle_def split: sum.splits)
  have "right_cols ''order_id'' agg = [''event_timestamp'', ''event_type'']"
    by (simp add: right_cols_def lifecycle_agg_shape(1) [OF a])
  then show ?thesis
    using merge_left_extends [OF m lifecycle_agg_distinct [OF a]] by simp
next
  case False
  with assms have "out = left" by (auto simp: merge_lifecycle_def)
  then show ?thesis by (simp add: extends_refl)
qed

subsection \<open>Customers\<close>

lemma drop_duplicates_distinct:
  "drop_duplicates c df = Inr out \<Longrightarrow> distinct (map (\<lambda>r. r c) (rows out))"
  by (auto simp: drop_duplicates_def distinct_first_of_each split: if_splits)

lemma drop_duplicates_columns:
  "drop_duplicates c df = Inr out \<Longrightarrow> columns out = columns df"
  by (auto simp: drop_duplicates_def split: if_splits)

lemma merge_customers_extends:
  assumes "merge_customers left cu = Inr out"
  shows "extends [''customer_city'', ''customer_state''] left out"
proof (cases "\<not> df_empty cu \<and> ''customer_id'' \<in> set (columns left)")
  case True
  let ?cols = "filter (\<lambda>c. c \<in> set (columns cu)) [''customer_id'', ''customer_city'', ''customer_state'']"
  from True assms obtain firsts where
    d: "drop_duplicates ''customer_id'' (select ?cols cu) = Inr firsts"
    and m: "merge_left ''customer_id'' left firsts = Inr out"
    by (auto simp: merge_customers_def Let_def split: sum.splits)
  have "columns firsts = ?cols"
    using drop_duplicates_columns [OF d] by (simp add: select_def)
  then have "set (right_cols ''customer_id'' firsts) \<subseteq> set [''customer_city'', ''customer_state'']"
    by (auto simp: right_cols_def)
  then show ?thesis
    by (rule merge_left_extends [OF m drop_duplicates_distinct [OF d]])
next
  case False
  with assms have "out = left" by (auto simp: merge_customers_def)
  then show ?thesis by (simp add: extends_refl)
qed

subsection \<open>Payments\<close>

lemma payments_small_shape:
  assumes "payments_small L p = Inr small"
  shows "columns small = columns p"
    and "distinct (map (\<lambda>r. r ''order_id'') (rows small))"
  using assms
  by (auto simp: payments_small_def sort_values_def drop_duplicates_def distinct_first_of_each
      split: sum.splits if_splits)

lemma merge_payments_extends:
  assumes "merge_payments L left p = Inr out"
  shows "extends [''payment_type'', ''payment_installments'', ''payment_value''] left out"
proof (cases "\<not> df_empty p \<and> ''order_id'' \<in> set (columns p)")
  case True
  with assms obtain small where s: "payments_small L p = Inr small"
    by (auto simp: merge_payments_def split: sum.splits)
  let ?cols = "filter (\<lambda>c. c \<in> set (columns small))
                 [''order_id'', ''payment_type'', ''payment_installments'', ''payment_value'']"
  show ?thesis
  proof (cases "?cols = []")
    case e: True
    with True assms s have "out = left" by (simp add: merge_payments_def Let_def)
    then show ?thesis by (simp add: extends_refl)
  next
    case False
    with True assms s have m: "merge_left ''order_id'' left (select ?cols small) = Inr out"
      by (simp add: merge_payments_def Let_def)
    have "set (right_cols ''order_id'' (select ?cols small)) \<subseteq>
          set [''payment_type'', ''payment_installments'', ''payment_value'']"
      by (auto simp: right_cols_def select_def)
    moreover have "distinct (map (\<lambda>r. r ''order_id'') (rows (select ?cols small)))"
      using payments_small_shape(2) [OF s] by (simp add: select_def)
    ultimately show ?thesis
      using merge_left_extends [OF m] by blast
  qed
next
  case False
  with assms have "out = left" by (auto simp: merge_payments_def)
  then show ?thesis by (simp add: extends_refl)
qed

lemma default_payment_value_extends: "extends [''payment_value''] df (default_payment_value L df)"
  by (simp add: default_payment_value_def extends_set_col extends_set_col_scalar)

lemma enrich_extends:
  assumes "enrich L od lc cu p = Inr E"
  shows "extends joined_labels od E"
proof -
  from assms obtain e1 e2 e3 where
    1: "merge_lifecycle od lc = Inr e1" and
    2: "merge_customers e1 cu = Inr e2" and
    3: "merge_payments L e2 p = Inr e3" and
    E: "E = default_payment_value L e3"
    by (auto simp: enrich_def join_tables_def split: sum.splits)
  have "extends joined_labels od e1"
    by (rule extends_mono [OF merge_lifecycle_extends [OF 1]]) (simp add: joined_labels_def)
  moreover have "extends joined_labels e1 e2"
    by (rule extends_mono [OF merge_customers_extends [OF 2]]) (simp add: joined_labels_def)
  moreover have "extends joined_labels e2 e3"
    by (rule extends_mono [OF merge_payments_extends [OF 3]]) (simp add: joined_labels_def)
  moreover have "extends joined_labels e3 E"
    unfolding E
    by (rule extends_mono [OF default_payment_value_extends]) (simp add: joined_labels_def)
  ultimately show ?thesis
    by (blast intro: extends_trans)
qed



subsection \<open>Preparation\<close>

lemma parse_date_col_shape [simp]:
  "length (rows (parse_date_col L c df)) = length (rows df)"
  "columns (parse_date_col L c df) = columns df"
  by (simp_all add: parse_date_col_def set_col_def)

lemma parse_date_col_other: "c' \<noteq> c \<Longrightarrow> col (parse_date_col L c df) c' = col df c'"
  by (simp add: parse_date_col_def col_set_col_other)

lemma fold_parse_date_col_shape [simp]:
  "length (rows (fold (parse_date_col L) cs df)) = length (rows df)"
  "columns (fold (parse_date_col L) cs df) = columns df"
  by (induction cs arbitrary: df) simp_all

lemma parse_order_dates_shape [simp]:
  "length (rows (parse_order_dates L df)) = length (rows df)"
  "columns (parse_order_dates L df) = columns df"
  by (simp_all add: parse_order_dates_def)

lemma parse_lifecycle_shape [simp]:
  "length (rows (parse_lifecycle L df)) = length (rows df)"
  "columns (parse_lifecycle L df) = columns df"
  by (simp_all add: parse_lifecycle_def)

lemma df_empty_parse_lifecycle [simp]: "df_empty (parse_lifecycle L df) = df_empty df"
proof -
  have "rows (parse_lifecycle L df) = [] \<longleftrightarrow> rows df = []"
    using parse_lifecycle_shape(1) [of L df] by (metis length_0_conv)
  then show ?thesis by (simp add: df_empty_def)
qed

lemma lifecycle_columns_ok_parse [simp]:
  "lifecycle_columns_ok (parse_lifecycle L df) = lifecycle_columns_ok df"
  by (simp add: lifecycle_columns_ok_def)

lemma prepare_orders_shape:
  "length (rows (prepare_orders L df)) = length (rows df)"
  "set (columns (prepare_orders L df)) =
     set (columns df) \<union> {''order_id'', ''customer_id'', ''order_status''}"
  by (auto simp: prepare_orders_def)

lemma installments_to_numeric_shape [simp]:
  "length (rows (installments_to_numeric L df)) = length (rows df)"
  "set (columns (installments_to_numeric L df)) = set (columns df)"
  by (auto simp: installments_to_numeric_def)

lemma prepare_payments_shape:
  "length (rows (prepare_payments L df)) = length (rows df)"
  "set (columns (prepare_payments L df)) =
     set (columns df) \<union> {''order_id'', ''payment_installments''}"
  by (auto simp: prepare_payments_def)

lemma prepare_customers_shape:
  "length (rows (prepare_customers df)) = length (rows df)"
  "set (columns (prepare_customers df)) =
     set (columns df) \<union> {''customer_id'', ''customer_city'', ''customer_state''}"
  by (auto simp: prepare_customers_def)

subsection \<open>The joins return\<close>

lemma merge_lifecycle_ok:
  assumes "lifecycle_columns_ok lc" "''order_id'' \<in> set (columns left)"
  shows "\<exists>out. merge_lifecycle left lc = Inr out"
proof (cases "\<not> df_empty lc \<and> ''order_id'' \<in> set (columns lc)")
  case True
  with assms(1) obtain agg where a: "lifecycle_agg lc = Inr agg"
    using lifecycle_agg_ok [of lc] by (auto simp: lifecycle_columns_ok_def)
  have "''order_id'' \<in> set (columns agg)"
    by (simp add: lifecycle_agg_shape(1) [OF a])
  with assms(2) obtain out where "merge_left ''order_id'' left agg = Inr out"
    using merge_left_ok by blast
  with True a show ?thesis by (simp add: merge_lifecycle_def)
next
  case False
  then show ?thesis by (auto simp: merge_lifecycle_def)
qed

lemma merge_customers_ok:
  assumes "''customer_id'' \<in> set (columns cu)"
  shows "\<exists>out. merge_customers left cu = Inr out"
proof (cases "\<not> df_empty cu \<and> ''customer_id'' \<in> set (columns left)")
  case True
  let ?cols = "filter (\<lambda>c. c \<in> set (columns cu)) [''customer_id'', ''customer_city'', ''customer_state'']"
  have in_cols: "''customer_id'' \<in> set ?cols" using assms by simp
  then obtain firsts where d: "drop_duplicates ''customer_id'' (select ?cols cu) = Inr firsts"
    by (simp add: drop_duplicates_def select_def)
  have "columns firsts = ?cols"
    using drop_duplicates_columns [OF d] by (simp add: select_def)
  with in_cols True obtain out where "merge_left ''customer_id'' left firsts = Inr out"
    using merge_left_ok [of "''customer_id''" left firsts] by auto
  with True d show ?thesis by (simp add: merge_customers_def Let_def)
next
  case False
  then show ?thesis by (auto simp: merge_customers_def)
qed

lemma payments_small_ok:
  assumes "''order_id'' \<in> set (columns p)" "''payment_installments'' \<in> set (columns p)"
  shows "\<exists>small. payments_small L p = Inr small"
  using assms by (simp add: payments_small_def sort_values_def drop_duplicates_def)

lemma merge_payments_ok:
  assumes "''order_id'' \<in> set (columns left)" "''payment_installments'' \<in> set (columns p)"
  shows "\<exists>out. merge_payments L left p = Inr out"
proof (cases "\<not> df_empty p \<and> ''order_id'' \<in> set (columns p)")
  case True
  then obtain small where s: "payments_small L p = Inr small"
    using payments_small_ok [OF _ assms(2)] by blast
  let ?cols = "filter (\<lambda>c. c \<in> set (columns small))
                 [''order_id'', ''payment_type'', ''payment_installments'', ''payment_value'']"
  have in_cols: "''order_id'' \<in> set ?cols"
    using True payments_small_shape(1) [OF s] by simp
  then have ne: "?cols \<noteq> []"
    by (metis empty_iff list.set(1))
  have "columns (select ?cols small) = ?cols"
    by (simp add: select_def)
  with in_cols have "''order_id'' \<in> set (columns (select ?cols small))"
    by metis
  with assms(1) obtain out where "merge_left ''order_id'' left (select ?cols small) = Inr out"
    using merge_left_ok by blast
  with True s ne show ?thesis by (simp add: merge_payments_def Let_def)
next
  case False
  then show ?thesis by (auto simp: merge_payments_def)
qed

lemma fresh_joined_order_id: "fresh joined_labels ''order_id''" "''order_id'' \<notin> set joined_labels"
  by (simp_all add: fresh_def joined_labels_def)

lemma enrich_ok:
  assumes "lifecycle_columns_ok lc" "''order_id'' \<in> set (columns od)"
    "''customer_id'' \<in> set (columns cu)" "''payment_installments'' \<in> set (columns p)"
  shows "\<exists>E. enrich L od lc cu p = Inr E"
proof -
  obtain e1 where 1: "merge_lifecycle od lc = Inr e1"
    using merge_lifecycle_ok [OF assms(1,2)] by blast
  obtain e2 where 2: "merge_customers e1 cu = Inr e2"
    using merge_customers_ok [OF assms(3)] by blast
  have "extends joined_labels od e1"
    by (rule extends_mono [OF merge_lifecycle_extends [OF 1]]) (simp add: joined_labels_def)
  moreover have "extends joined_labels e1 e2"
    by (rule extends_mono [OF merge_customers_extends [OF 2]]) (simp add: joined_labels_def)
  ultimately have "extends joined_labels od e2" by (rule extends_trans)
  then have "''order_id'' \<in> set (columns e2)"
    using extendsD(1) [OF _ fresh_joined_order_id(2,1)] assms(2) by blast
  then obtain e3 where 3: "merge_payments L e2 p = Inr e3"
    using merge_payments_ok [OF _ assms(4)] by blast
  from 1 2 3 show ?thesis by (simp add: enrich_def join_tables_def)
qed

lemma enrich_prepared_ok:
  assumes "lifecycle_columns_ok lc"
  shows "\<exists>E. enrich L (prepare_orders L od) (parse_lifecycle L lc) (prepare_customers cu)
               (prepare_payments L p) = Inr E"
  by (rule enrich_ok) (simp_all add: assms prepare_orders_shape prepare_payments_shape
      prepare_customers_shape)

lemma enrich_prepared_length:
  assumes "enrich L (prepare_orders L od) lc cu p = Inr E"
  shows "length (rows E) = length (rows od)"
  using extends_length [OF enrich_extends [OF assms]] by (simp add: prepare_orders_shape)



lemma add_month_extends: "extends [snd cn] df (add_month L cn df)"
  by (cases cn) (simp add: add_month_def extends_set_col extends_set_col_scalar)

lemma add_months_extends: "extends [''month'', ''lifecycle_month''] df (add_months L df)"
proof -
  let ?a = "add_month L (''order_purchase_timestamp'', ''month'') df"
  have 1: "extends [''month'', ''lifecycle_month''] df ?a"
    by (rule extends_mono [OF add_month_extends]) simp
  have 2: "extends [''month'', ''lifecycle_month''] ?a
      (add_month L (''event_timestamp'', ''lifecycle_month'') ?a)"
    by (rule extends_mono [OF add_month_extends]) simp
  have "add_months L df = add_month L (''event_timestamp'', ''lifecycle_month'') ?a"
    by (simp only: add_months_def fold.simps comp_def id_def)
  then show ?thesis
    using extends_trans [OF 1 2] by (simp only:)
qed

lemma add_processing_time_length:
  "add_processing_time dp df = Inr out \<Longrightarrow> length (rows out) = length (rows df)"
  by (auto simp: add_processing_time_def split: if_splits)

lemma add_processing_time_other:
  assumes "add_processing_time dp df = Inr out" "c \<noteq> ''processing_time_days''"
  shows "col out c = col df c" and "c \<in> set (columns out) \<longleftrightarrow> c \<in> set (columns df)"
  using assms by (auto simp: add_processing_time_def col_def split: if_splits)

lemma add_processing_time_extends:
  "add_processing_time dp df = Inr out \<Longrightarrow> extends [''processing_time_days''] df out"
  unfolding extends_def
  using add_processing_time_length [of dp df out] add_processing_time_other [of dp df out]
  by auto

lemma load_data_Inr:
  assumes "load_data L fs = Inr out"
  obtains E where
    "enrich L (prepare_orders L (safe_read_csv fs ''data/dim_order.csv''))
       (parse_lifecycle L (safe_read_csv fs ''data/fact_order_lifecycle.csv''))
       (prepare_customers (safe_read_csv fs ''data/dim_customer.csv''))
       (prepare_payments L (safe_read_csv fs ''data/dim_payments.csv'')) = Inr E"
    "add_processing_time (\<not> df_empty (safe_read_csv fs ''data/dim_order.csv'')) (add_months L E) =
       Inr (enriched out)"
    "payments out = prepare_payments L (safe_read_csv fs ''data/dim_payments.csv'')"
    "orders out = prepare_orders L (safe_read_csv fs ''data/dim_order.csv'')"
    "lifecycle out = parse_lifecycle L (safe_read_csv fs ''data/fact_order_lifecycle.csv'')"
    "customers out = prepare_customers (safe_read_csv fs ''data/dim_customer.csv'')"
  using assms unfolding load_data_def Let_def
  by (auto split: sum.splits)

lemma enrich_raises:
  assumes "\<not> lifecycle_columns_ok lc"
  shows "\<exists>k. enrich L od lc cu p = Inl (KeyError k)"
proof -
  from assms have ne: "\<not> df_empty lc" "''order_id'' \<in> set (columns lc)"
    and miss: "''event_timestamp'' \<notin> set (columns lc) \<or> ''event_type'' \<notin> set (columns lc)"
    by (auto simp: lifecycle_columns_ok_def)
  from miss ne(2) have "\<exists>k. lifecycle_agg lc = Inl (KeyError k)"
    by (auto simp: lifecycle_agg_def sort_values2_def)
  with ne show ?thesis
    by (auto simp: enrich_def join_tables_def merge_lifecycle_def)
qed

text \<open>
  Claim C1. Whatever the four tables are, the table that the enrichment join produces has as
  many rows as the orders that were read; so has the enriched table that \<^verbatim>\<open>load_data\<close>
  returns. The join produces a table whenever the lifecycle table is empty, or has no order
  identifiers, or has the two columns that the aggregation reads.
\<close>

theorem enrich_row_count:
  "(\<forall>E. enrich L (prepare_orders L df_orders) (parse_lifecycle L df_lifecycle)
          (prepare_customers df_customers) (prepare_payments L df_payments) = Inr E \<longrightarrow>
        length (rows E) = length (rows df_orders)) \<and>
   (lifecycle_columns_ok df_lifecycle \<longrightarrow>
      (\<exists>E. enrich L (prepare_orders L df_orders) (parse_lifecycle L df_lifecycle)
          (prepare_customers df_customers) (prepare_payments L df_payments) = Inr E)) \<and>
   (\<forall>out. load_data L fs = Inr out \<longrightarrow>
      length (rows (enriched out)) = length (rows (safe_read_csv fs ''data/dim_order.csv'')))"
proof (intro conjI allI impI)
  fix E
  assume "enrich L (prepare_orders L df_orders) (parse_lifecycle L df_lifecycle)
          (prepare_customers df_customers) (prepare_payments L df_payments) = Inr E"
  then show "length (rows E) = length (rows df_orders)"
    by (rule enrich_prepared_length)
next
  assume "lifecycle_columns_ok df_lifecycle"
  then show "\<exists>E. enrich L (prepare_orders L df_orders) (parse_lifecycle L df_lifecycle)
          (prepare_customers df_customers) (prepare_payments L df_payments) = Inr E"
    by (rule enrich_prepared_ok)
next
  fix out
  assume "load_data L fs = Inr out"
  then obtain E where
    E: "enrich L (prepare_orders L (safe_read_csv fs ''data/dim_order.csv''))
       (parse_lifecycle L (safe_read_csv fs ''data/fact_order_lifecycle.csv''))
       (prepare_customers (safe_read_csv fs ''data/dim_customer.csv''))
       (prepare_payments L (safe_read_csv fs ''data/dim_payments.csv'')) = Inr E"
    and d: "add_processing_time (\<not> df_empty (safe_read_csv fs ''data/dim_order.csv''))
       (add_months L E) = Inr (enriched out)"
    by (rule load_data_Inr)
  have "length (rows (enriched out)) = length (rows (add_months L E))"
    by (rule add_processing_time_length [OF d])
  also have "\<dots> = length (rows E)"
    by (rule extends_length [OF add_months_extends])
  also have "\<dots> = length (rows (safe_read_csv fs ''data/dim_order.csv''))"
    by (rule enrich_prepared_length [OF E])
  finally show "length (rows (enriched out)) = length (rows (safe_read_csv fs ''data/dim_order.csv''))" .
qed

theorem enrich_row_count_witness:
  "lifecycle_columns_ok sample_lifecycle \<and>
   (\<exists>E. enrich sample_lib (prepare_orders sample_lib sample_orders)
          (parse_lifecycle sample_lib sample_lifecycle)
          (prepare_customers sample_customers) (prepare_payments sample_lib sample_payments) = Inr E \<and>
        length (rows E) = 4)"
proof -
  have ok: "lifecycle_columns_ok sample_lifecycle"
    by (simp add: lifecycle_columns_ok_def sample_lifecycle_def table_def)
  have n: "length (rows sample_orders) = 4"
    by (simp add: sample_orders_def table_def)
  from enrich_row_count [of sample_lib sample_orders sample_lifecycle sample_customers
      sample_payments sample_files] ok n
  show ?thesis by metis
qed

subsection \<open>The default of the payment value\<close>



lemma fillna_to_numeric_length [simp]: "length (fillna v (to_numeric L cs)) = length cs"
  by (simp add: fillna_def to_numeric_def)






subsection \<open>Orders without a payment row\<close>

lemma select_columns: "columns (select cs df) = cs"
  by (simp add: select_def)

lemma select_rows: "rows (select cs df) = rows df"
  by (simp add: select_def)







subsection \<open>Columns that the preparation leaves alone\<close>

lemma fold_parse_date_col_other:
  "c \<notin> set cs \<Longrightarrow> col (fold (parse_date_col L) cs df) c = col df c"
  by (induction cs arbitrary: df) (auto simp: parse_date_col_other)












subsection \<open>The parsed date columns\<close>

lemma try_formats_length [simp]: "length (try_formats L fmts s) = length s"
  by (induction fmts) (simp_all add: Let_def to_datetime_def)

lemma to_datetime_safe_length [simp]: "length (to_datetime_safe L (Some s) f) = length s"
  by (simp add: to_datetime_safe_def)

lemma to_datetime_safe_typed: "datetime_typed (to_datetime_safe L series f)"
  unfolding datetime_typed_def
  by (auto simp: to_datetime_safe_def dest: try_formats_typed split: option.splits if_splits)

lemma parse_date_col_typed:
  "c \<in> set (columns df) \<Longrightarrow> datetime_typed (col (parse_date_col L c df) c)"
  by (simp add: parse_date_col_def col_set_col_same to_datetime_safe_typed)

lemma fold_parse_date_col_typed:
  "c \<in> set cs \<Longrightarrow> c \<in> set (columns df) \<Longrightarrow>
   datetime_typed (col (fold (parse_date_col L) cs df) c)"
proof (induction cs arbitrary: df)
  case Nil
  then show ?case by simp
next
  case (Cons a cs)
  show ?case
  proof (cases "c \<in> set cs")
    case True
    with Cons show ?thesis by simp
  next
    case False
    with Cons.prems have "c = a" by simp
    with False Cons.prems(2) show ?thesis
      by (simp add: fold_parse_date_col_other parse_date_col_typed)
  qed
qed

lemma prepare_orders_typed:
  assumes "\<not> df_empty od" "c \<in> set date_cols" "c \<in> set (columns od)"
  shows "datetime_typed (col (prepare_orders L od) c)"
proof -
  have "datetime_typed (col (parse_order_dates L od) c)"
    using assms by (simp add: parse_order_dates_def fold_parse_date_col_typed)
  moreover have "c \<in> set (columns (parse_order_dates L od))"
    using assms(3) by simp
  ultimately show ?thesis
    by (simp add: prepare_orders_def col_ensure_col_present)
qed

lemma before_processing_time:
  assumes E: "enrich L (prepare_orders L od) lc cu p = Inr E"
    and c: "c \<notin> set derived_labels" "fresh derived_labels c"
      "c \<notin> {''order_id'', ''customer_id'', ''order_status''}"
  shows "c \<in> set (columns (add_months L E)) \<longleftrightarrow> c \<in> set (columns od)"
    and "c \<in> set (columns od) \<Longrightarrow> col (add_months L E) c = col (prepare_orders L od) c"
proof -
  have a: "extends derived_labels (prepare_orders L od) E"
    by (rule extends_mono [OF enrich_extends [OF E]]) (auto simp: derived_labels_def)
  have b: "extends derived_labels E (add_months L E)"
    by (rule extends_mono [OF add_months_extends]) (simp add: derived_labels_def joined_labels_def)
  note ab = extends_trans [OF a b]
  have po: "c \<in> set (columns (prepare_orders L od)) \<longleftrightarrow> c \<in> set (columns od)"
    using c(3) by (auto simp: prepare_orders_shape)
  show "c \<in> set (columns (add_months L E)) \<longleftrightarrow> c \<in> set (columns od)"
    using extendsD(1) [OF ab c(1,2)] po by simp
  assume "c \<in> set (columns od)"
  then show "col (add_months L E) c = col (prepare_orders L od) c"
    using extendsD(2) [OF ab c(1,2)] po by simp
qed

lemma derived_label_facts:
  "''order_purchase_timestamp'' \<notin> set derived_labels"
  "fresh derived_labels ''order_purchase_timestamp''"
  "''order_delivered_customer_date'' \<notin> set derived_labels"
  "fresh derived_labels ''order_delivered_customer_date''"
  "''processing_time_days'' \<notin> set derived_labels"
  "fresh derived_labels ''processing_time_days''"
  by (simp_all add: derived_labels_def joined_labels_def fresh_def)


subsection \<open>The processing time\<close>

lemma elapsed_days_Ts:
  "elapsed_days (Ts td) (Ts tp) = Num (of_int (td - tp) / 1000000000 / 86400)"
  by simp

lemma add_processing_time_rows:
  assumes D: "add_processing_time dp A = Inr D"
    and nc: "''processing_time_days'' \<notin> set (columns A)"
    and ty: "''order_delivered_customer_date'' \<in> set (columns A) \<and>
             ''order_purchase_timestamp'' \<in> set (columns A) \<longrightarrow>
             datetime_typed (col A ''order_delivered_customer_date'') \<and>
             datetime_typed (col A ''order_purchase_timestamp'')"
    and r: "r \<in> set (rows D)"
  shows "(present D r ''processing_time_days'' \<longleftrightarrow>
            present D r ''order_purchase_timestamp'' \<and> present D r ''order_delivered_customer_date'') \<and>
         (present D r ''processing_time_days'' \<longrightarrow>
            (\<exists>td tp. r ''order_delivered_customer_date'' = Ts td \<and>
                     r ''order_purchase_timestamp'' = Ts tp \<and>
                     r ''processing_time_days'' = Num (of_int (td - tp) / 1000000000 / 86400)))"
proof (cases "''order_delivered_customer_date'' \<in> set (columns A) \<and>
              ''order_purchase_timestamp'' \<in> set (columns A)")
  case False
  with D have "D = A" by (auto simp: add_processing_time_def)
  with False nc show ?thesis by (auto simp: present_def)
next
  case True
  let ?g = "\<lambda>r. if r ''order_delivered_customer_date'' \<noteq> NA \<and> r ''order_purchase_timestamp'' \<noteq> NA
             then r(''processing_time_days'' :=
                      elapsed_days (r ''order_delivered_customer_date'') (r ''order_purchase_timestamp''))
             else r(''processing_time_days'' := NA)"
  from D True nc have cols: "columns D = columns A @ [''processing_time_days'']"
    and rows: "rows D = map ?g (rows A)"
    by (auto simp: add_processing_time_def split: if_splits)
  from r rows obtain r0 where r0: "r0 \<in> set (rows A)" and rr: "r = ?g r0" by auto
  from ty True r0 have
    td: "r0 ''order_delivered_customer_date'' = NA \<or> (\<exists>t. r0 ''order_delivered_customer_date'' = Ts t)"
    and tp: "r0 ''order_purchase_timestamp'' = NA \<or> (\<exists>t. r0 ''order_purchase_timestamp'' = Ts t)"
    by (auto simp: datetime_typed_def col_def)
  have incols: "''processing_time_days'' \<in> set (columns D)"
    "''order_purchase_timestamp'' \<in> set (columns D)"
    "''order_delivered_customer_date'' \<in> set (columns D)"
    using True by (simp_all add: cols)
  show ?thesis
  proof (cases "r0 ''order_delivered_customer_date'' \<noteq> NA \<and> r0 ''order_purchase_timestamp'' \<noteq> NA")
    case both: True
    with td tp obtain a b where ab: "r0 ''order_delivered_customer_date'' = Ts a"
      "r0 ''order_purchase_timestamp'' = Ts b" by auto
    then have "r = r0(''processing_time_days'' := Num (of_int (a - b) / 1000000000 / 86400))"
      unfolding rr by simp
    then have "r ''processing_time_days'' = Num (of_int (a - b) / 1000000000 / 86400)"
      "r ''order_delivered_customer_date'' = Ts a" "r ''order_purchase_timestamp'' = Ts b"
      using ab by simp_all
    then show ?thesis
      using incols by (simp add: present_def)
  next
    case False
    then have "r = r0(''processing_time_days'' := NA)"
      unfolding rr by auto
    then have "r ''processing_time_days'' = NA"
      "r ''order_delivered_customer_date'' = r0 ''order_delivered_customer_date''"
      "r ''order_purchase_timestamp'' = r0 ''order_purchase_timestamp''"
      by simp_all
    with False show ?thesis
      by (auto simp: present_def)
  qed
qed


lemma load_data_ok:
  assumes "load_data_returns fs"
  shows "\<exists>out. load_data L fs = Inr out"
proof -
  let ?od = "safe_read_csv fs ''data/dim_order.csv''"
  from assms obtain E where
    E: "enrich L (prepare_orders L ?od)
       (parse_lifecycle L (safe_read_csv fs ''data/fact_order_lifecycle.csv''))
       (prepare_customers (safe_read_csv fs ''data/dim_customer.csv''))
       (prepare_payments L (safe_read_csv fs ''data/dim_payments.csv'')) = Inr E"
    using enrich_prepared_ok unfolding load_data_returns_def by blast
  have d: "''order_delivered_customer_date'' \<in> set (columns (add_months L E)) \<longleftrightarrow>
           ''order_delivered_customer_date'' \<in> set (columns ?od)"
    by (rule before_processing_time(1) [OF E derived_label_facts(3,4)]) simp
  have p: "''order_purchase_timestamp'' \<in> set (columns (add_months L E)) \<longleftrightarrow>
           ''order_purchase_timestamp'' \<in> set (columns ?od)"
    by (rule before_processing_time(1) [OF E derived_label_facts(1,2)]) simp
  have "\<exists>D. add_processing_time (\<not> df_empty ?od) (add_months L E) = Inr D"
    using assms unfolding load_data_returns_def add_processing_time_def d p by auto
  then obtain D where "add_processing_time (\<not> df_empty ?od) (add_months L E) = Inr D" ..
  with E show ?thesis
    unfolding load_data_def Let_def by simp
qed

text \<open>
  Claim C6, as amended. When the orders as read have no column \<^verbatim>\<open>processing_time_days\<close> of
  their own, every row of the enriched table has a processing time if and only if it has both
  the purchase and the delivery timestamp; the processing time is then the difference of the
  two, in seconds, divided by 86400, whatever its sign.
\<close>

theorem processing_time_days_iff_both_timestamps:
  "load_data L fs = Inr out \<and>
   ''processing_time_days'' \<notin> set (columns (safe_read_csv fs ''data/dim_order.csv'')) \<longrightarrow>
   (\<forall>r \<in> set (rows (enriched out)).
      (present (enriched out) r ''processing_time_days'' \<longleftrightarrow>
         present (enriched out) r ''order_purchase_timestamp'' \<and>
         present (enriched out) r ''order_delivered_customer_date'') \<and>
      (present (enriched out) r ''processing_time_days'' \<longrightarrow>
         (\<exists>td tp. r ''order_delivered_customer_date'' = Ts td \<and>
                  r ''order_purchase_timestamp'' = Ts tp \<and>
                  r ''processing_time_days'' = Num (of_int (td - tp) / 1000000000 / 86400))))"
proof (intro impI ballI, elim conjE)
  fix r
  let ?od = "safe_read_csv fs ''data/dim_order.csv''"
  assume out: "load_data L fs = Inr out"
    and own: "''processing_time_days'' \<notin> set (columns ?od)"
    and r: "r \<in> set (rows (enriched out))"
  from out obtain E where
    E: "enrich L (prepare_orders L ?od)
       (parse_lifecycle L (safe_read_csv fs ''data/fact_order_lifecycle.csv''))
       (prepare_customers (safe_read_csv fs ''data/dim_customer.csv''))
       (prepare_payments L (safe_read_csv fs ''data/dim_payments.csv'')) = Inr E"
    and D: "add_processing_time (\<not> df_empty ?od) (add_months L E) = Inr (enriched out)"
    by (rule load_data_Inr)
  let ?A = "add_months L E"
  have nc: "''processing_time_days'' \<notin> set (columns ?A)"
    using before_processing_time(1) [OF E derived_label_facts(5,6)] own by simp
  have ty: "''order_delivered_customer_date'' \<in> set (columns ?A) \<and>
            ''order_purchase_timestamp'' \<in> set (columns ?A) \<longrightarrow>
            datetime_typed (col ?A ''order_delivered_customer_date'') \<and>
            datetime_typed (col ?A ''order_purchase_timestamp'')"
  proof (intro impI, elim conjE)
    assume a: "''order_delivered_customer_date'' \<in> set (columns ?A)"
      and b: "''order_purchase_timestamp'' \<in> set (columns ?A)"
    with D have ne: "\<not> df_empty ?od"
      by (auto simp: add_processing_time_def split: if_splits)
    have d: "''order_delivered_customer_date'' \<in> set (columns ?od)"
      using before_processing_time(1) [OF E derived_label_facts(3,4)] a by simp
    have p: "''order_purchase_timestamp'' \<in> set (columns ?od)"
      using before_processing_time(1) [OF E derived_label_facts(1,2)] b by simp
    have "col ?A ''order_delivered_customer_date'' =
          col (prepare_orders L ?od) ''order_delivered_customer_date''"
      by (rule before_processing_time(2) [OF E derived_label_facts(3,4) _ d]) simp
    moreover have "col ?A ''order_purchase_timestamp'' =
          col (prepare_orders L ?od) ''order_purchase_timestamp''"
      by (rule before_processing_time(2) [OF E derived_label_facts(1,2) _ p]) simp
    moreover have "datetime_typed (col (prepare_orders L ?od) ''order_delivered_customer_date'')"
      by (rule prepare_orders_typed [OF ne _ d]) (simp add: date_cols_def)
    moreover have "datetime_typed (col (prepare_orders L ?od) ''order_purchase_timestamp'')"
      by (rule prepare_orders_typed [OF ne _ p]) (simp add: date_cols_def)
    ultimately show "datetime_typed (col ?A ''order_delivered_customer_date'') \<and>
            datetime_typed (col ?A ''order_purchase_timestamp'')" by simp
  qed
  show "(present (enriched out) r ''processing_time_days'' \<longleftrightarrow>
         present (enriched out) r ''order_purchase_timestamp'' \<and>
         present (enriched out) r ''order_delivered_customer_date'') \<and>
      (present (enriched out) r ''processing_time_days'' \<longrightarrow>
         (\<exists>td tp. r ''order_delivered_customer_date'' = Ts td \<and>
                  r ''order_purchase_timestamp'' = Ts tp \<and>
                  r ''processing_time_days'' = Num (of_int (td - tp) / 1000000000 / 86400)))"
    by (rule add_processing_time_rows [OF D nc ty r])
qed

theorem processing_time_days_iff_both_timestamps_witness:
  "(\<exists>out. load_data sample_lib sample_files = Inr out \<and>
      (\<forall>r \<in> set (rows (enriched out)).
         (present (enriched out) r ''processing_time_days'' \<longleftrightarrow>
            present (enriched out) r ''order_purchase_timestamp'' \<and>
            present (enriched out) r ''order_delivered_customer_date'') \<and>
         (present (enriched out) r ''processing_time_days'' \<longrightarrow>
            (\<exists>td tp. r ''order_delivered_customer_date'' = Ts td \<and>
                     r ''order_purchase_timestamp'' = Ts tp \<and>
                     r ''processing_time_days'' = Num (of_int (td - tp) / 1000000000 / 86400))))) \<and>
   (case add_processing_time True
           (table [''order_purchase_timestamp'', ''order_delivered_customer_date'']
              [[Ts 1705314600000000000, Ts 1705617000000000000],
               [Ts 1705314600000000000, Ts 1705228200000000000],
               [Ts 1705478400000000000, NA]]) of
      Inl e \<Rightarrow> []
    | Inr D \<Rightarrow> map (\<lambda>r. r ''processing_time_days'') (rows D)) = [Num (7 / 2), Num (- 1), NA]"
proof -
  have "load_data_returns sample_files"
    by (simp add: load_data_returns_def lifecycle_columns_ok_def safe_read_csv_def
        sample_files_def sample_lifecycle_def sample_orders_def table_def df_empty_def)
  then obtain out where out: "load_data sample_lib sample_files = Inr out"
    using load_data_ok by blast
  have own: "''processing_time_days'' \<notin> set (columns (safe_read_csv sample_files ''data/dim_order.csv''))"
    by (simp add: safe_read_csv_def sample_files_def sample_orders_def table_def)
  have ev: "(case add_processing_time True
           (table [''order_purchase_timestamp'', ''order_delivered_customer_date'']
              [[Ts 1705314600000000000, Ts 1705617000000000000],
               [Ts 1705314600000000000, Ts 1705228200000000000],
               [Ts 1705478400000000000, NA]]) of
      Inl e \<Rightarrow> []
    | Inr D \<Rightarrow> map (\<lambda>r. r ''processing_time_days'') (rows D)) = [Num (7 / 2), Num (- 1), NA]"
    by code_simp
  from processing_time_days_iff_both_timestamps [of sample_lib sample_files out] out own ev
  show ?thesis by blast
qed

theorem processing_time_days_counterexample:
  "(case load_data sample_lib own_days_files of
      Inl e \<Rightarrow> None
    | Inr out \<Rightarrow>
        Some (''processing_time_days'' \<in> set (columns (enriched out)),
              ''order_delivered_customer_date'' \<in> set (columns (enriched out)),
              map (\<lambda>r. (r ''order_delivered_customer_date'', r ''processing_time_days''))
                (rows (enriched out)))) =
   Some (True, True, [(NA, Num 9)])"
  by code_simp

subsection \<open>The month columns\<close>

text \<open>
  Claim C7, on the code. Order \<^verbatim>\<open>B\<close> has no purchase timestamp and no lifecycle event: its
  \<^verbatim>\<open>month\<close> and its \<^verbatim>\<open>lifecycle_month\<close> are the text \<^verbatim>\<open>NaT\<close>, which is a value and not a
  missing one. Order \<^verbatim>\<open>A\<close> has both timestamps, and both months are the year and month of them.
\<close>

theorem month_of_missing_timestamp_is_text:
  "(case load_data sample_lib month_files of
      Inl e \<Rightarrow> None
    | Inr out \<Rightarrow>
        Some (map (\<lambda>r. (r ''order_id'', (r ''order_purchase_timestamp'', r ''month''),
                         (r ''event_timestamp'', r ''lifecycle_month'')))
                (rows (enriched out)))) =
   Some [(Str ''A'', (Ts 1705314600000000000, Str ''2024-01''),
                     (Ts 1705478400000000000, Str ''2024-01'')),
         (Str ''B'', (NA, Str ''NaT''), (NA, Str ''NaT''))]"
  by code_simp

subsection \<open>The payment row that is kept\<close>


lemma installments_to_numeric_length [simp]:
  "length (rows (installments_to_numeric L q)) = length (rows q)"
  by (simp add: installments_to_numeric_def)















subsection \<open>The kept payment row on the order\<close>




subsection \<open>Ties under a stable sort\<close>
















end
